theory Spec2Isabelle
  imports Main
begin

section \<open>The test stream service controller\<close>

text \<open>
  A shallow embedding of \<^verbatim>\<open>sdks/python/apache_beam/testing/test_stream_service.py\<close>:
  the class \<^verbatim>\<open>TestStreamServiceController\<close> with its constructor, \<^verbatim>\<open>start\<close>,
  \<^verbatim>\<open>stop\<close> and the streaming call \<^verbatim>\<open>Events\<close>.

  The gRPC library and the reader are external to the file. Both are taken as parameters:
  the library as a record of the answers it gives to the calls the controller makes on it,
  the reader as its \<^verbatim>\<open>read_multiple\<close> function.
\<close>

subsection \<open>Generators\<close>

text \<open>
  What iterating a Python iterable produces, step by step: it is exhausted
  (\<open>StopIteration\<close>), it raises, or it yields an element and goes on. The type is
  coinductive, since a generator may yield for ever.
\<close>

codatatype ('e, 'x) gen =
    StopIteration
  | Raise 'x
  | Yield 'e "('e, 'x) gen"

text \<open>A generator that yields the elements of a list and then goes on as \<open>g\<close>.\<close>

primrec yields :: "'e list \<Rightarrow> ('e, 'x) gen \<Rightarrow> ('e, 'x) gen" where
  "yields [] g = g"
| "yields (e # es) g = Yield e (yields es g)"

text \<open>
  The loop of \<^verbatim>\<open>Events\<close>,
  \<^verbatim>\<open>for e in reader: yield e\<close>:
  each element the iterable yields is yielded in turn; the loop ends when the iterable is
  exhausted; an exception raised by the iterable is not caught, so it leaves the loop and
  the generator function around it.
\<close>

primcorec for_yield :: "('e, 'x) gen \<Rightarrow> ('e, 'x) gen" where
  "for_yield reader =
     (case reader of
        StopIteration \<Rightarrow> StopIteration
      | Raise x \<Rightarrow> Raise x
      | Yield e rest \<Rightarrow> Yield e (for_yield rest))"

subsection \<open>Requests, tags and read keys\<close>

text \<open>\<^verbatim>\<open>request.output_ids\<close> is a repeated string field of the request message.\<close>

record event_request =
  output_ids :: "string list"

text \<open>A tag is a string or Python's \<^verbatim>\<open>None\<close>; a read key is a pair of a label and a tag.\<close>

type_synonym tag = "string option"
type_synonym read_key = "string \<times> tag"

text \<open>
  \<^verbatim>\<open>tags = [None if tag == 'None' else tag for tag in request.output_ids]\<close>
\<close>

definition Events_tags :: "event_request \<Rightarrow> tag list" where
  "Events_tags request =
     map (\<lambda>tag. if tag = ''None'' then None else Some tag) (output_ids request)"

text \<open>
  The argument of \<^verbatim>\<open>read_multiple\<close>:
  \<^verbatim>\<open>[('full', tag) for tag in tags]\<close>
\<close>

definition Events_keys :: "event_request \<Rightarrow> read_key list" where
  "Events_keys request = map (\<lambda>tag. (''full'', tag)) (Events_tags request)"

subsection \<open>The gRPC server handle\<close>

text \<open>
  The calls the controller makes on \<^verbatim>\<open>self._server\<close>. \<open>Stop\<close> carries the grace
  period, \<open>Wait_for_termination\<close> the timeout (\<open>None\<close> when the call gives none, which
  is Python's default for it).
\<close>

datatype grpc_call =
    Add_insecure_port string
  | Add_servicer
  | Start
  | Stop nat
  | Wait_for_termination "nat option"

text \<open>How a call on the external server ends: it returns, it raises, or it never returns.\<close>

datatype 'x outcome = Returns | Raises 'x | Blocks

text \<open>
  The library, as far as the controller uses it. \<open>add_insecure_port\<close> raises or returns
  a port number. \<open>has_wait_for_termination\<close> is the answer of
  \<^verbatim>\<open>hasattr(self._server, 'wait_for_termination')\<close>. \<open>lifecycle\<close> gives the outcome of
  \<^verbatim>\<open>start\<close>, \<^verbatim>\<open>stop\<close> and \<^verbatim>\<open>wait_for_termination\<close> on a server, which may depend on
  the calls made on that server before.
\<close>

record 'x grpc =
  add_insecure_port :: "string \<Rightarrow> 'x + int"
  has_wait_for_termination :: bool
  lifecycle :: "grpc_call list \<Rightarrow> grpc_call \<Rightarrow> 'x outcome"

subsection \<open>The controller\<close>

text \<open>
  The fields of the object: \<open>endpoint\<close>, \<open>server\<close> for \<^verbatim>\<open>self._server\<close> (the server
  handle, represented by the calls made on it so far, oldest first) and \<open>reader\<close> for
  \<^verbatim>\<open>self._reader\<close> (represented by its method \<^verbatim>\<open>read_multiple\<close>, whose result is
  iterated; a \<^verbatim>\<open>read_multiple\<close> that raises when called is the generator \<open>Raise x\<close>).
\<close>

record ('e, 'x) controller =
  endpoint :: string
  server :: "grpc_call list"
  reader :: "read_key list \<Rightarrow> ('e, 'x) gen"

text \<open>
  What one run of \<^verbatim>\<open>Events\<close> does: the arguments of the calls it makes to
  \<^verbatim>\<open>self._reader.read_multiple\<close>, in order; the generator handed to the caller; the
  object afterwards.
\<close>

record ('e, 'x) events_run =
  read_multiple_calls :: "read_key list list"
  stream :: "('e, 'x) gen"
  self_after :: "('e, 'x) controller"

definition Events :: "('e, 'x) controller \<Rightarrow> event_request \<Rightarrow> ('e, 'x) events_run" where
  "Events self request =
     (let keys = Events_keys request;
          rd = reader self keys
      in \<lparr>read_multiple_calls = [keys], stream = for_yield rd, self_after = self\<rparr>)"

subsection \<open>Construction, start and stop\<close>

text \<open>
  How \<^verbatim>\<open>'localhost:{}'.format(port)\<close> renders an integer: its decimal digits, with a
  minus sign in front of a negative one.
\<close>

definition digit_char :: "nat \<Rightarrow> char" where
  "digit_char d = ''0123456789'' ! d"

fun str_nat :: "nat \<Rightarrow> string" where
  "str_nat n = (if n < 10 then [digit_char n] else str_nat (n div 10) @ [digit_char (n mod 10)])"

declare str_nat.simps [simp del]

definition str_int :: "int \<Rightarrow> string" where
  "str_int i = (if i < 0 then CHR ''-'' # str_nat (nat (- i)) else str_nat (nat i))"

text \<open>
  The test \<^verbatim>\<open>if endpoint:\<close> on the optional argument: Python takes \<^verbatim>\<open>None\<close> and the
  empty string as false, any other string as true.
\<close>

fun truthy :: "string option \<Rightarrow> bool" where
  "truthy None = False"
| "truthy (Some s) = (s \<noteq> [])"

text \<open>
  \<^verbatim>\<open>__init__(self, reader, endpoint=None)\<close>. The result is the new object, or the
  exception that \<^verbatim>\<open>add_insecure_port\<close> raised: the constructor catches nothing. The port
  number that \<^verbatim>\<open>add_insecure_port\<close> returns is used in the second branch only.
  \<open>Add_servicer\<close> stands for the registration of the object as the servicer of the
  server. The creation of the server, \<^verbatim>\<open>grpc.server(ThreadPoolExecutor(max_workers=10))\<close>,
  is the empty history of calls the handle starts from.
\<close>

definition init ::
  "'x grpc \<Rightarrow> (read_key list \<Rightarrow> ('e, 'x) gen) \<Rightarrow> string option \<Rightarrow> 'x + ('e, 'x) controller"
where
  "init grpc reader_arg endpoint_arg =
     (case (if truthy endpoint_arg then endpoint_arg else None) of
        Some ep \<Rightarrow>
          (case add_insecure_port grpc ep of
             Inl e \<Rightarrow> Inl e
           | Inr port \<Rightarrow>
               Inr \<lparr>endpoint = ep,
                    server = [Add_insecure_port ep, Add_servicer],
                    reader = reader_arg\<rparr>)
      | None \<Rightarrow>
          (case add_insecure_port grpc ''localhost:0'' of
             Inl e \<Rightarrow> Inl e
           | Inr port \<Rightarrow>
               Inr \<lparr>endpoint = ''localhost:'' @ str_int port,
                    server = [Add_insecure_port ''localhost:0'', Add_servicer],
                    reader = reader_arg\<rparr>))"

text \<open>
  How a method of the controller ends: it returns (with the object as it is then), an
  exception leaves it, or it never returns.
\<close>

datatype ('x, 'a) result = Returned 'a | Raised 'x | Blocked

text \<open>One call on \<^verbatim>\<open>self._server\<close>; when it returns, the handle has one more call made on it.\<close>

definition server_call ::
  "'x grpc \<Rightarrow> ('e, 'x) controller \<Rightarrow> grpc_call \<Rightarrow> ('x, ('e, 'x) controller) result"
where
  "server_call grpc self c =
     (case lifecycle grpc (server self) c of
        Returns \<Rightarrow> Returned (self\<lparr>server := server self @ [c]\<rparr>)
      | Raises e \<Rightarrow> Raised e
      | Blocks \<Rightarrow> Blocked)"

text \<open>\<^verbatim>\<open>start\<close>: \<^verbatim>\<open>self._server.start()\<close>.\<close>

definition start :: "'x grpc \<Rightarrow> ('e, 'x) controller \<Rightarrow> ('x, ('e, 'x) controller) result" where
  "start grpc self = server_call grpc self Start"

text \<open>
  \<^verbatim>\<open>stop\<close>: \<^verbatim>\<open>self._server.stop(0)\<close>, then, if the server object has the attribute,
  \<^verbatim>\<open>self._server.wait_for_termination()\<close>, called without a timeout. The method tests
  nothing else: it does the same whatever was called on the server before.
\<close>

definition stop :: "'x grpc \<Rightarrow> ('e, 'x) controller \<Rightarrow> ('x, ('e, 'x) controller) result" where
  "stop grpc self =
     (case server_call grpc self (Stop 0) of
        Returned self' \<Rightarrow>
          (if has_wait_for_termination grpc
           then server_call grpc self' (Wait_for_termination None)
           else Returned self')
      | Raised e \<Rightarrow> Raised e
      | Blocked \<Rightarrow> Blocked)"

subsection \<open>Example collaborators\<close>

text \<open>A reader without events.\<close>

definition no_events :: "read_key list \<Rightarrow> (nat, string) gen" where
  "no_events keys = StopIteration"

text \<open>
  A library whose \<^verbatim>\<open>add_insecure_port\<close> answers port 50051 for every address and
  whose other calls return at once.
\<close>

definition ready_grpc :: "string grpc" where
  "ready_grpc =
     \<lparr>add_insecure_port = (\<lambda>address. Inr 50051),
      has_wait_for_termination = True,
      lifecycle = (\<lambda>history c. Returns)\<rparr>"

text \<open>A library whose \<^verbatim>\<open>add_insecure_port\<close> raises.\<close>

definition refusing_grpc :: "string grpc" where
  "refusing_grpc =
     \<lparr>add_insecure_port = (\<lambda>address. Inl ''RuntimeError''),
      has_wait_for_termination = True,
      lifecycle = (\<lambda>history c. Returns)\<rparr>"

text \<open>
  A library whose \<^verbatim>\<open>wait_for_termination\<close>, called without a timeout, returns only for
  a server that has been started: it waits for the termination of the serving loop, which
  a server that never started does not reach.
\<close>

definition waiting_grpc :: "string grpc" where
  "waiting_grpc =
     \<lparr>add_insecure_port = (\<lambda>address. Inr 50051),
      has_wait_for_termination = True,
      lifecycle = (\<lambda>history c.
        if c = Wait_for_termination None \<and> Start \<notin> set history then Blocks else Returns)\<rparr>"

text \<open>
  A library whose \<^verbatim>\<open>add_insecure_port\<close> does not raise when it cannot bind the address:
  it returns the port number 0, the way gRPC reports that no port was bound.
\<close>

definition unbound_grpc :: "string grpc" where
  "unbound_grpc =
     \<lparr>add_insecure_port = (\<lambda>address. Inr 0),
      has_wait_for_termination = True,
      lifecycle = (\<lambda>history c. Returns)\<rparr>"

section \<open>Properties of Events\<close>

lemma for_yield_id: "for_yield g = g"
  by (coinduction arbitrary: g) (auto split: gen.splits)

lemma length_Events_keys: "length (Events_keys request) = length (output_ids request)"
  by (simp add: Events_keys_def Events_tags_def)

lemma nth_Events_keys:
  assumes "i < length (output_ids request)"
  shows "Events_keys request ! i =
    (''full'', if output_ids request ! i = ''None'' then None else Some (output_ids request ! i))"
  using assms by (simp add: Events_keys_def Events_tags_def)

lemma yields_Raise_neq_StopIteration: "yields es (Raise x) \<noteq> yields es StopIteration"
  by (induction es) simp_all

text \<open>
  C1. The generator that \<^verbatim>\<open>Events\<close> hands to its caller is the one the reader's
  \<^verbatim>\<open>read_multiple\<close> returned for the derived keys: the same events, each once, in the
  same order, ending where and as the reader's ends. In particular, when the reader yields
  the events \<open>es\<close> and is then exhausted, so does \<^verbatim>\<open>Events\<close>.
\<close>

theorem Events_forwards_reader:
  "stream (Events self request) = reader self (Events_keys request)
   \<and> stream (Events (self\<lparr>reader := \<lambda>keys. yields es StopIteration\<rparr>) request)
       = yields es StopIteration"
  by (simp add: Events_def Let_def for_yield_id)

text \<open>
  C2. \<^verbatim>\<open>Events\<close> calls \<^verbatim>\<open>read_multiple\<close> with a list of keys in which the key at
  the position of an output identifier equal to the sentinel \<^verbatim>\<open>'None'\<close> has the tag
  \<open>None\<close>, not the sentinel string, and the key at the position of any other identifier
  has that identifier as its tag.
\<close>

theorem Events_normalizes_sentinel:
  assumes "i < length (output_ids request)"
  shows "\<exists>keys. read_multiple_calls (Events self request) = [keys]
    \<and> (output_ids request ! i = ''None'' \<longrightarrow>
          snd (keys ! i) = None \<and> snd (keys ! i) \<noteq> Some ''None'')
    \<and> (output_ids request ! i \<noteq> ''None'' \<longrightarrow>
          snd (keys ! i) = Some (output_ids request ! i))"
  using assms by (simp add: Events_def Let_def nth_Events_keys)

theorem Events_normalizes_sentinel_witness:
  "(0::nat) < length (output_ids \<lparr>output_ids = [''None'', ''a'']\<rparr>)
   \<and> (1::nat) < length (output_ids \<lparr>output_ids = [''None'', ''a'']\<rparr>)
   \<and> (\<exists>keys. read_multiple_calls
          (Events (\<lparr>endpoint = ''localhost:1'', server = [],
                    reader = \<lambda>keys. StopIteration\<rparr> :: (nat, string) controller)
             \<lparr>output_ids = [''None'', ''a'']\<rparr>) = [keys]
        \<and> snd (keys ! 0) = None \<and> snd (keys ! 1) = Some ''a'')"
proof -
  let ?c = "\<lparr>endpoint = ''localhost:1'', server = [],
             reader = \<lambda>keys. StopIteration\<rparr> :: (nat, string) controller"
  let ?r = "\<lparr>output_ids = [''None'', ''a'']\<rparr>"
  have h0: "(0::nat) < length (output_ids ?r)" by simp
  have h1: "(1::nat) < length (output_ids ?r)" by simp
  from Events_normalizes_sentinel [OF h0, of ?c] Events_normalizes_sentinel [OF h1, of ?c]
  show ?thesis by auto
qed

text \<open>
  C3. For a request with \<open>N\<close> output identifiers, \<^verbatim>\<open>Events\<close> calls
  \<^verbatim>\<open>read_multiple\<close> exactly once, with a list of exactly \<open>N\<close> keys; the tag of the
  key at each position is the one derived from the identifier at that position (\<open>None\<close>
  only for the sentinel, the identifier itself otherwise), so order and duplicates are kept.
\<close>

theorem Events_keys_in_order:
  "\<exists>keys. read_multiple_calls (Events self request) = [keys]
     \<and> length keys = length (output_ids request)
     \<and> (\<forall>i < length (output_ids request).
          case snd (keys ! i) of
            None \<Rightarrow> output_ids request ! i = ''None''
          | Some t \<Rightarrow> t = output_ids request ! i \<and> t \<noteq> ''None'')"
  by (simp add: Events_def Let_def length_Events_keys nth_Events_keys)

theorem Events_keys_in_order_witness:
  "\<exists>keys. read_multiple_calls
       (Events (\<lparr>endpoint = ''localhost:1'', server = [],
                 reader = \<lambda>keys. StopIteration\<rparr> :: (nat, string) controller)
          \<lparr>output_ids = [''b'', ''None'', ''b'']\<rparr>) = [keys]
     \<and> length keys = 3
     \<and> map snd keys = [Some ''b'', None, Some ''b'']"
proof -
  let ?c = "\<lparr>endpoint = ''localhost:1'', server = [],
             reader = \<lambda>keys. StopIteration\<rparr> :: (nat, string) controller"
  let ?r = "\<lparr>output_ids = [''b'', ''None'', ''b'']\<rparr>"
  from Events_keys_in_order [of ?c ?r]
  obtain keys where k: "read_multiple_calls (Events ?c ?r) = [keys]"
    and l: "length keys = length (output_ids ?r)"
    and t: "\<forall>i < length (output_ids ?r). case snd (keys ! i) of
              None \<Rightarrow> output_ids ?r ! i = ''None''
            | Some t \<Rightarrow> t = output_ids ?r ! i \<and> t \<noteq> ''None''"
    by blast
  from l have l3: "length keys = 3" by simp
  have "(0::nat) < length (output_ids ?r)" by simp
  from t [rule_format, OF this] have t0: "snd (keys ! 0) = Some ''b''"
    by (simp split: option.splits)
  have "(1::nat) < length (output_ids ?r)" by simp
  from t [rule_format, OF this] have t1: "snd (keys ! 1) = None"
    by (simp split: option.splits)
  have "(2::nat) < length (output_ids ?r)" by simp
  from t [rule_format, OF this] have t2: "snd (keys ! 2) = Some ''b''"
    by (simp split: option.splits)
  from l3 obtain a b c where abc: "keys = [a, b, c]"
    by (auto simp: length_Suc_conv numeral_3_eq_3)
  with t0 t1 t2 have "map snd keys = [Some ''b'', None, Some ''b'']"
    by simp
  with k l3 show ?thesis
    by (intro exI [of _ keys] conjI)
qed

text \<open>
  C4. When the sequence the reader produces yields the events \<open>es\<close> and then raises
  \<open>x\<close>, the generator of \<^verbatim>\<open>Events\<close> yields exactly \<open>es\<close> and then raises the
  same \<open>x\<close>: the exception is not caught, so the run differs from one that ends
  normally after \<open>es\<close>.
\<close>

theorem Events_propagates_reader_error:
  assumes "reader self (Events_keys request) = yields es (Raise x)"
  shows "stream (Events self request) = yields es (Raise x)
    \<and> stream (Events self request) \<noteq> yields es StopIteration"
  using assms by (simp add: Events_def Let_def for_yield_id yields_Raise_neq_StopIteration)

theorem Events_propagates_reader_error_witness:
  "reader (\<lparr>endpoint = ''localhost:1'', server = [],
            reader = \<lambda>keys. Yield 7 (Raise ''KeyError'')\<rparr> :: (nat, string) controller)
     (Events_keys \<lparr>output_ids = [''a'']\<rparr>) = yields [7] (Raise ''KeyError'')
   \<and> stream (Events (\<lparr>endpoint = ''localhost:1'', server = [],
            reader = \<lambda>keys. Yield 7 (Raise ''KeyError'')\<rparr> :: (nat, string) controller)
         \<lparr>output_ids = [''a'']\<rparr>) = Yield 7 (Raise ''KeyError'')"
proof -
  let ?c = "\<lparr>endpoint = ''localhost:1'', server = [],
             reader = \<lambda>keys. Yield 7 (Raise ''KeyError'')\<rparr> :: (nat, string) controller"
  let ?r = "\<lparr>output_ids = [''a'']\<rparr>"
  have h: "reader ?c (Events_keys ?r) = yields [7] (Raise ''KeyError'')" by simp
  from Events_propagates_reader_error [OF h] h show ?thesis by simp
qed

text \<open>
  C8. Every key that \<^verbatim>\<open>Events\<close> passes to \<^verbatim>\<open>read_multiple\<close> has the constant
  \<^verbatim>\<open>'full'\<close> as its first component, whatever the output identifiers are.
\<close>

theorem Events_keys_namespace:
  "\<exists>keys. read_multiple_calls (Events self request) = [keys]
     \<and> (\<forall>k \<in> set keys. fst k = ''full'')"
  by (auto simp: Events_def Let_def Events_keys_def)

theorem Events_keys_namespace_witness:
  "\<exists>keys. read_multiple_calls
       (Events (\<lparr>endpoint = ''localhost:1'', server = [],
                 reader = \<lambda>keys. StopIteration\<rparr> :: (nat, string) controller)
          \<lparr>output_ids = [''None'', ''full'', '''']\<rparr>) = [keys]
     \<and> keys \<noteq> [] \<and> (\<forall>k \<in> set keys. fst k = ''full'')"
proof -
  let ?c = "\<lparr>endpoint = ''localhost:1'', server = [],
             reader = \<lambda>keys. StopIteration\<rparr> :: (nat, string) controller"
  let ?r = "\<lparr>output_ids = [''None'', ''full'', '''']\<rparr>"
  from Events_keys_namespace [of ?c ?r]
  obtain keys where k: "read_multiple_calls (Events ?c ?r) = [keys]"
    and n: "\<forall>k \<in> set keys. fst k = ''full''"
    by blast
  from k have "keys \<noteq> []"
    by (auto simp: Events_def Let_def Events_keys_def Events_tags_def)
  with k n show ?thesis
    by (intro exI [of _ keys] conjI)
qed

text \<open>
  C9. Running \<^verbatim>\<open>Events\<close> leaves the object as it was: the endpoint, the server
  handle and the reader are unchanged. So a second run on the object left by a first run
  is the run it would have been on the original object.
\<close>

theorem Events_leaves_self_unchanged:
  "self_after (Events self request) = self
   \<and> endpoint (self_after (Events self request)) = endpoint self
   \<and> server (self_after (Events self request)) = server self
   \<and> reader (self_after (Events self request)) = reader self
   \<and> Events (self_after (Events self request)) request' = Events self request'"
  by (simp add: Events_def Let_def)

text \<open>
  C10. Only the exact string \<^verbatim>\<open>'None'\<close> is turned into the tag \<open>None\<close>: any
  other identifier is the tag of its key, unchanged, among them the empty string,
  \<^verbatim>\<open>'none'\<close>, \<^verbatim>\<open>'NONE'\<close> and \<^verbatim>\<open>'None'\<close> with a blank before or after it. For a
  request without output identifiers, \<^verbatim>\<open>read_multiple\<close> is still called, once, with
  the empty list of keys.
\<close>

theorem Events_sentinel_exact:
  "(\<forall>i < length (output_ids request). output_ids request ! i \<noteq> ''None'' \<longrightarrow>
      (\<exists>keys. read_multiple_calls (Events self request) = [keys]
         \<and> keys ! i = (''full'', Some (output_ids request ! i))))
   \<and> read_multiple_calls
        (Events self \<lparr>output_ids = ['''', ''none'', ''NONE'', '' None'', ''None '']\<rparr>)
      = [[(''full'', Some ''''), (''full'', Some ''none''), (''full'', Some ''NONE''),
          (''full'', Some '' None''), (''full'', Some ''None '')]]
   \<and> read_multiple_calls (Events self \<lparr>output_ids = []\<rparr>) = [[]]"
  by (simp add: Events_def Let_def nth_Events_keys) (simp add: Events_keys_def Events_tags_def)

theorem Events_sentinel_exact_witness:
  "(0::nat) < length (output_ids \<lparr>output_ids = [''none'']\<rparr>)
   \<and> output_ids \<lparr>output_ids = [''none'']\<rparr> ! 0 \<noteq> ''None''
   \<and> (\<exists>keys. read_multiple_calls
          (Events (\<lparr>endpoint = ''localhost:1'', server = [],
                    reader = \<lambda>keys. StopIteration\<rparr> :: (nat, string) controller)
             \<lparr>output_ids = [''none'']\<rparr>) = [keys]
        \<and> keys ! 0 = (''full'', Some ''none''))"
proof -
  let ?c = "\<lparr>endpoint = ''localhost:1'', server = [],
             reader = \<lambda>keys. StopIteration\<rparr> :: (nat, string) controller"
  let ?r = "\<lparr>output_ids = [''none'']\<rparr>"
  have h0: "(0::nat) < length (output_ids ?r)" by simp
  have h1: "output_ids ?r ! 0 \<noteq> ''None''" by simp
  from Events_sentinel_exact [of ?r ?c, THEN conjunct1, rule_format, OF h0 h1] h0 h1
  show ?thesis by simp
qed

section \<open>Properties of construction and shutdown\<close>

lemma str_nat_not_Nil: "str_nat n \<noteq> []"
  by (subst str_nat.simps) simp

lemma str_int_not_Nil: "str_int i \<noteq> []"
  by (simp add: str_int_def str_nat_not_Nil)

text \<open>
  C5. Constructed without an address, the controller asks the library for the port of
  \<^verbatim>\<open>'localhost:0'\<close> (port 0: any free port of the loopback host) and, when the library
  answers with a port, has as its endpoint the non-empty string \<^verbatim>\<open>'localhost:'\<close>
  followed by that port in decimal. The endpoint is a field of the object the constructor
  returns; nothing has been started on the server at that point.
\<close>

theorem init_ephemeral_endpoint:
  assumes "add_insecure_port grpc ''localhost:0'' = Inr port"
  shows "\<exists>self. init grpc reader_arg None = Inr self
    \<and> endpoint self = ''localhost:'' @ str_int port
    \<and> endpoint self \<noteq> []
    \<and> server self = [Add_insecure_port ''localhost:0'', Add_servicer]
    \<and> Start \<notin> set (server self)"
  using assms by (simp add: init_def)

theorem init_ephemeral_endpoint_witness:
  "add_insecure_port ready_grpc ''localhost:0'' = Inr 50051
   \<and> (\<exists>self. init ready_grpc no_events None = Inr self
        \<and> endpoint self = ''localhost:50051''
        \<and> Start \<notin> set (server self))"
proof -
  have h: "add_insecure_port ready_grpc ''localhost:0'' = Inr 50051"
    by (simp add: ready_grpc_def)
  have s: "str_int 50051 = ''50051''"
    by (simp add: str_int_def str_nat.simps digit_char_def)
  from init_ephemeral_endpoint [OF h, of no_events] h s show ?thesis
    by auto
qed

text \<open>
  C6, as the code has it. Constructed with a non-empty address, the controller passes
  exactly that address to the library's \<^verbatim>\<open>add_insecure_port\<close>. When that call returns,
  whatever port number it returns, construction succeeds and the endpoint of the new
  object is the address as supplied. When that call raises, construction ends with the
  same exception and there is no object. Constructed with the empty string as address,
  the controller is constructed exactly as it is without an address.
\<close>

theorem init_explicit_endpoint:
  assumes "ep \<noteq> []"
  shows "(\<forall>port. add_insecure_port grpc ep = Inr port \<longrightarrow>
            init grpc reader_arg (Some ep) =
              Inr \<lparr>endpoint = ep, server = [Add_insecure_port ep, Add_servicer],
                   reader = reader_arg\<rparr>)
    \<and> (\<forall>e. add_insecure_port grpc ep = Inl e \<longrightarrow> init grpc reader_arg (Some ep) = Inl e)
    \<and> init grpc reader_arg (Some []) = init grpc reader_arg None"
  using assms by (simp add: init_def)

theorem init_explicit_endpoint_witness:
  "''[::]:8080'' \<noteq> []
   \<and> add_insecure_port ready_grpc ''[::]:8080'' = Inr 50051
   \<and> map_sum id endpoint (init ready_grpc no_events (Some ''[::]:8080'')) = Inr ''[::]:8080''
   \<and> add_insecure_port unbound_grpc ''[::]:8080'' = Inr 0
   \<and> map_sum id endpoint (init unbound_grpc no_events (Some ''[::]:8080'')) = Inr ''[::]:8080''
   \<and> add_insecure_port refusing_grpc ''[::]:8080'' = Inl ''RuntimeError''
   \<and> map_sum id endpoint (init refusing_grpc no_events (Some ''[::]:8080''))
       = Inl ''RuntimeError''
   \<and> init ready_grpc no_events (Some '''') = init ready_grpc no_events None"
proof -
  have h: "''[::]:8080'' \<noteq> []" by simp
  have a: "add_insecure_port ready_grpc ''[::]:8080'' = Inr 50051"
    by (simp add: ready_grpc_def)
  have z: "add_insecure_port unbound_grpc ''[::]:8080'' = Inr 0"
    by (simp add: unbound_grpc_def)
  have b: "add_insecure_port refusing_grpc ''[::]:8080'' = Inl ''RuntimeError''"
    by (simp add: refusing_grpc_def)
  note t1 = init_explicit_endpoint [OF h, of ready_grpc no_events]
  note t2 = init_explicit_endpoint [OF h, of unbound_grpc no_events]
  note t3 = init_explicit_endpoint [OF h, of refusing_grpc no_events]
  from t1 a have 1: "map_sum id endpoint (init ready_grpc no_events (Some ''[::]:8080''))
      = Inr ''[::]:8080''"
    by simp
  from t2 z have 2: "map_sum id endpoint (init unbound_grpc no_events (Some ''[::]:8080''))
      = Inr ''[::]:8080''"
    by simp
  from t3 b have 3: "map_sum id endpoint (init refusing_grpc no_events (Some ''[::]:8080''))
      = Inl ''RuntimeError''"
    by simp
  from t1 have 4: "init ready_grpc no_events (Some '''') = init ready_grpc no_events None"
    by simp
  from h a 1 z 2 b 3 4 show ?thesis
    by (intro conjI)
qed

text \<open>
  C6, as stated, fails in two ways. For the empty address, the test \<^verbatim>\<open>if endpoint:\<close>
  takes the empty string as no address: the constructor binds \<^verbatim>\<open>'localhost:0'\<close>
  instead, does not fail, and the endpoint is not the string supplied. For a non-empty
  address that the library cannot bind and reports by the port number 0, the constructor
  does not look at the number returned: it does not fail, and the endpoint is the address
  that was not bound.
\<close>

theorem init_explicit_endpoint_counterexample:
  "map_sum id endpoint (init ready_grpc no_events (Some '''')) = Inr ''localhost:50051''
   \<and> map_sum id server (init ready_grpc no_events (Some ''''))
       = Inr [Add_insecure_port ''localhost:0'', Add_servicer]
   \<and> add_insecure_port unbound_grpc ''[::]:8080'' = Inr 0
   \<and> init unbound_grpc no_events (Some ''[::]:8080'') =
       Inr \<lparr>endpoint = ''[::]:8080'',
            server = [Add_insecure_port ''[::]:8080'', Add_servicer],
            reader = no_events\<rparr>"
proof -
  have s: "str_int 50051 = ''50051''"
    by (simp add: str_int_def str_nat.simps digit_char_def)
  have a: "map_sum id endpoint (init ready_grpc no_events (Some ''''))
      = Inr ''localhost:50051''"
    using s by (simp add: init_def ready_grpc_def)
  have b: "map_sum id server (init ready_grpc no_events (Some ''''))
      = Inr [Add_insecure_port ''localhost:0'', Add_servicer]"
    by (simp add: init_def ready_grpc_def)
  have c: "add_insecure_port unbound_grpc ''[::]:8080'' = Inr 0"
    by (simp add: unbound_grpc_def)
  have d: "init unbound_grpc no_events (Some ''[::]:8080'') =
       Inr \<lparr>endpoint = ''[::]:8080'',
            server = [Add_insecure_port ''[::]:8080'', Add_servicer],
            reader = no_events\<rparr>"
    by (simp add: init_def unbound_grpc_def)
  from a b c d show ?thesis
    by (intro conjI)
qed

text \<open>
  C7, as the code has it. \<^verbatim>\<open>stop\<close> keeps no record of what was called before and
  does not test the state of the server: it asks the server to stop with grace 0 and
  then, when the server offers \<^verbatim>\<open>wait_for_termination\<close>, waits for termination without
  a timeout. Whenever these calls of the library return in the state at hand (before
  \<^verbatim>\<open>start\<close>, after it, after an earlier \<^verbatim>\<open>stop\<close>), \<^verbatim>\<open>stop\<close> returns without raising
  and changes neither the endpoint nor the reader. When the wait does not return in that
  state, \<^verbatim>\<open>stop\<close> does not return: the controller puts no bound on the wait.
\<close>

theorem stop_delegates_to_server:
  "(lifecycle grpc (server self) (Stop 0) = Returns
      \<and> (has_wait_for_termination grpc \<longrightarrow>
            lifecycle grpc (server self @ [Stop 0]) (Wait_for_termination None) = Returns)
     \<longrightarrow> stop grpc self =
           Returned (self\<lparr>server := server self @ Stop 0 #
             (if has_wait_for_termination grpc then [Wait_for_termination None] else [])\<rparr>))
   \<and> (lifecycle grpc (server self) (Stop 0) = Returns
      \<and> has_wait_for_termination grpc
      \<and> lifecycle grpc (server self @ [Stop 0]) (Wait_for_termination None) = Blocks
     \<longrightarrow> stop grpc self = Blocked)"
  by (simp add: stop_def server_call_def)

theorem stop_delegates_to_server_witness:
  "start waiting_grpc
     \<lparr>endpoint = ''localhost:50051'',
      server = [Add_insecure_port ''localhost:0'', Add_servicer],
      reader = no_events\<rparr> =
   Returned
     \<lparr>endpoint = ''localhost:50051'',
      server = [Add_insecure_port ''localhost:0'', Add_servicer, Start],
      reader = no_events\<rparr>
   \<and> stop waiting_grpc
     \<lparr>endpoint = ''localhost:50051'',
      server = [Add_insecure_port ''localhost:0'', Add_servicer, Start],
      reader = no_events\<rparr> =
   Returned
     \<lparr>endpoint = ''localhost:50051'',
      server = [Add_insecure_port ''localhost:0'', Add_servicer, Start,
                Stop 0, Wait_for_termination None],
      reader = no_events\<rparr>
   \<and> stop waiting_grpc
     \<lparr>endpoint = ''localhost:50051'',
      server = [Add_insecure_port ''localhost:0'', Add_servicer, Start,
                Stop 0, Wait_for_termination None],
      reader = no_events\<rparr> =
   Returned
     \<lparr>endpoint = ''localhost:50051'',
      server = [Add_insecure_port ''localhost:0'', Add_servicer, Start,
                Stop 0, Wait_for_termination None, Stop 0, Wait_for_termination None],
      reader = no_events\<rparr>
   \<and> stop waiting_grpc
     \<lparr>endpoint = ''localhost:50051'',
      server = [Add_insecure_port ''localhost:0'', Add_servicer],
      reader = no_events\<rparr> = Blocked"
proof -
  let ?new = "\<lparr>endpoint = ''localhost:50051'',
      server = [Add_insecure_port ''localhost:0'', Add_servicer],
      reader = no_events\<rparr>"
  let ?run = "\<lparr>endpoint = ''localhost:50051'',
      server = [Add_insecure_port ''localhost:0'', Add_servicer, Start],
      reader = no_events\<rparr>"
  let ?once = "\<lparr>endpoint = ''localhost:50051'',
      server = [Add_insecure_port ''localhost:0'', Add_servicer, Start,
                Stop 0, Wait_for_termination None],
      reader = no_events\<rparr>"
  have w: "has_wait_for_termination waiting_grpc"
    by (simp add: waiting_grpc_def)
  have s0: "start waiting_grpc ?new = Returned ?run"
    by (simp add: start_def server_call_def waiting_grpc_def)
  have r1: "lifecycle waiting_grpc (server ?run) (Stop 0) = Returns
      \<and> (has_wait_for_termination waiting_grpc \<longrightarrow>
            lifecycle waiting_grpc (server ?run @ [Stop 0]) (Wait_for_termination None)
              = Returns)"
    by (simp add: waiting_grpc_def)
  have r2: "lifecycle waiting_grpc (server ?once) (Stop 0) = Returns
      \<and> (has_wait_for_termination waiting_grpc \<longrightarrow>
            lifecycle waiting_grpc (server ?once @ [Stop 0]) (Wait_for_termination None)
              = Returns)"
    by (simp add: waiting_grpc_def)
  have b: "lifecycle waiting_grpc (server ?new) (Stop 0) = Returns
      \<and> has_wait_for_termination waiting_grpc
      \<and> lifecycle waiting_grpc (server ?new @ [Stop 0]) (Wait_for_termination None) = Blocks"
    by (simp add: waiting_grpc_def)
  from stop_delegates_to_server [of waiting_grpc ?run, THEN conjunct1, rule_format, OF r1] w
  have s1: "stop waiting_grpc ?run = Returned ?once"
    by simp
  from stop_delegates_to_server [of waiting_grpc ?once, THEN conjunct1, rule_format, OF r2] w
  have s2: "stop waiting_grpc ?once = Returned (?once\<lparr>server := server ?once @
      [Stop 0, Wait_for_termination None]\<rparr>)"
    by simp
  from stop_delegates_to_server [of waiting_grpc ?new, THEN conjunct2, rule_format, OF b]
  have s3: "stop waiting_grpc ?new = Blocked" .
  from s0 s1 s2 s3 show ?thesis
    by simp
qed

text \<open>
  C7, as stated, fails. The wait that \<^verbatim>\<open>stop\<close> performs has no timeout, and
  \<^verbatim>\<open>stop\<close> does not look at the state of the server: on a freshly constructed, never
  started controller, with a library whose unbounded \<^verbatim>\<open>wait_for_termination\<close> returns
  only for a server that has been started, \<^verbatim>\<open>stop\<close> never returns.
\<close>

theorem stop_counterexample:
  "init waiting_grpc no_events None =
     Inr \<lparr>endpoint = ''localhost:50051'',
          server = [Add_insecure_port ''localhost:0'', Add_servicer],
          reader = no_events\<rparr>
   \<and> stop waiting_grpc
        \<lparr>endpoint = ''localhost:50051'',
         server = [Add_insecure_port ''localhost:0'', Add_servicer],
         reader = no_events\<rparr> = Blocked"
proof -
  have s: "str_int 50051 = ''50051''"
    by (simp add: str_int_def str_nat.simps digit_char_def)
  have a: "init waiting_grpc no_events None =
     Inr \<lparr>endpoint = ''localhost:50051'',
          server = [Add_insecure_port ''localhost:0'', Add_servicer],
          reader = no_events\<rparr>"
    using s by (simp add: init_def waiting_grpc_def)
  have b: "stop waiting_grpc
        \<lparr>endpoint = ''localhost:50051'',
         server = [Add_insecure_port ''localhost:0'', Add_servicer],
         reader = no_events\<rparr> = Blocked"
    by (simp add: stop_def server_call_def waiting_grpc_def)
  from a b show ?thesis
    by (intro conjI)
qed

end
